theory Spec2Isabelle
  imports Main
begin

section \<open>JavaScript values, objects and completions\<close>

text \<open>
  The RAML client generator plugin (\<^verbatim>\<open>raml-client-generator/index.js\<close>) exposes the
  object \<^verbatim>\<open>API\<close> with \<^verbatim>\<open>createClient\<close>, \<^verbatim>\<open>set\<close>, \<^verbatim>\<open>get\<close>, \<^verbatim>\<open>unset\<close> and
  \<^verbatim>\<open>authenticate\<close> to notebook cells. Its arguments are arbitrary JavaScript values, so
  the model starts from a datatype of values.

  Scope of the value model: numbers are the integers; an object is the list of its own
  data properties in insertion order, held in a heap and named by its address, so two
  references to one object see each other's writes. The prototype chain, accessor
  properties and the built-in properties of function objects are outside the model. An
  \<^verbatim>\<open>Error\<close> is carried by value with its message.
\<close>

type_synonym addr = nat

datatype jsval =
    JUndefined
  | JNull
  | JBool bool
  | JNum int
  | JStr string
  | JError string
  | JTypeError
  | JObj addr
  | JFun addr
  | JHandle nat

text \<open>
  \<open>JObj a\<close> is a reference to a plain object and \<open>JFun a\<close> to a function object (a
  generated client is one); both have their properties at address \<open>a\<close>. \<open>JHandle n\<close> is
  the \<open>n\<close>-th completion handle issued by \<^verbatim>\<open>App._executeContext.async()\<close>.
  \<open>JError m\<close> is \<^verbatim>\<open>new Error(m)\<close>; \<open>JTypeError\<close> is the engine's \<^verbatim>\<open>TypeError\<close>.
\<close>

type_synonym props = "(string \<times> jsval) list"
type_synonym heap = "addr \<Rightarrow> props"

text \<open>How an expression or a call ends: with a value, or with a thrown value.\<close>

datatype 'a completion = Returned 'a | Thrown jsval

subsection \<open>The sandbox and the collaborators of the plugin\<close>

text \<open>
  \<^verbatim>\<open>App._executeContext.timeout\<close> takes \<^verbatim>\<open>Infinity\<close> or a number of milliseconds.
\<close>

datatype timeout = Unbounded | Millis int

text \<open>The response the reader looks at, and the options it hands to the middleware.\<close>

record xhr =
  status :: int
  responseText :: string

record ajax_options =
  url :: string
  proxy :: jsval
  headers :: "(string \<times> string) list"

text \<open>
  A promise as the plugin sees it once the cell has run to its end: still pending, or
  settled one way or the other.
\<close>

datatype 'a promise = Pending | Fulfilled 'a | Rejected jsval

text \<open>
  The state a call works on: the heap with its next free address, the global scope of the
  sandbox (\<^verbatim>\<open>App._executeWindow\<close>, kept apart from the heap: of the code below only
  \<^verbatim>\<open>fromPath\<close> is handed it), the timeout last set on the execution context, the
  number of completion handles \<^verbatim>\<open>async()\<close> has issued, the calls made to completion
  callbacks (the function called and its arguments, oldest first) and the requests
  triggered on the middleware (oldest first).
\<close>

record 'w sandbox =
  cells :: heap
  fresh :: addr
  window :: 'w
  timeout_set :: timeout
  issued :: nat
  calls :: "(jsval \<times> jsval list) list"
  requests :: "ajax_options list"

type_synonym reader = "string \<Rightarrow> ajax_options list \<Rightarrow> string promise \<times> ajax_options list"

text \<open>
  The collaborators live in other modules; a call takes them as parameters.
  \<^item> \<open>ajax\<close>: what the middleware answers to \<^verbatim>\<open>trigger('ajax', options, callback)\<close>: the
    arguments \<^verbatim>\<open>(err, xhr)\<close> it calls back with, or \<open>None\<close> when it never calls back.
  \<^item> \<open>parse\<close>: what the RAML parser does with the text of the root document (its name is
    the second argument); it fetches included files through the reader it is given.
  \<^item> \<open>clientGenerator\<close>: \<^verbatim>\<open>require('./client-generator')\<close>, called with the parsed
    document and the configuration; it builds the client on the heap, or throws.
  \<^item> \<open>fromPath\<close>: \<^verbatim>\<open>require('../../lib/from-path')\<close>, called with the global scope, a
    path and the client; it returns the global scope as it leaves it, also when it throws.
\<close>

record ('doc, 'w) host =
  ajax :: "ajax_options \<Rightarrow> (jsval \<times> xhr) option"
  parse :: "string \<Rightarrow> string \<Rightarrow> reader \<Rightarrow> ajax_options list \<Rightarrow> 'doc promise \<times> ajax_options list"
  clientGenerator :: "'doc \<Rightarrow> jsval \<Rightarrow> heap \<times> addr \<Rightarrow> jsval completion \<times> (heap \<times> addr)"
  fromPath :: "'w \<Rightarrow> string list \<Rightarrow> jsval \<Rightarrow> jsval completion \<times> 'w"

subsection \<open>Tests on values\<close>

definition truthy :: "jsval \<Rightarrow> bool" where
  "truthy v =
     (case v of
        JUndefined \<Rightarrow> False
      | JNull \<Rightarrow> False
      | JBool b \<Rightarrow> b
      | JNum n \<Rightarrow> n \<noteq> 0
      | JStr s \<Rightarrow> s \<noteq> []
      | _ \<Rightarrow> True)"

definition is_function :: "jsval \<Rightarrow> bool" where
  "is_function v = (case v of JFun a \<Rightarrow> True | JHandle n \<Rightarrow> True | _ \<Rightarrow> False)"

text \<open>\<^verbatim>\<open>_.isString\<close>: the value is a string.\<close>

definition isString :: "jsval \<Rightarrow> bool" where
  "isString v = (case v of JStr s \<Rightarrow> True | _ \<Rightarrow> False)"

text \<open>\<^verbatim>\<open>arguments[i]\<close>: a parameter the caller did not pass is \<^verbatim>\<open>undefined\<close>.\<close>

definition arg :: "jsval list \<Rightarrow> nat \<Rightarrow> jsval" where
  "arg args i = (if i < length args then args ! i else JUndefined)"

subsection \<open>Numbers as text\<close>

definition digit_char :: "nat \<Rightarrow> char" where
  "digit_char d = ''0123456789'' ! (d mod 10)"

fun show_nat :: "nat \<Rightarrow> string" where
  "show_nat n = (if n < 10 then [digit_char n] else show_nat (n div 10) @ [digit_char n])"

definition show_int :: "int \<Rightarrow> string" where
  "show_int i = (if i < 0 then CHR ''-'' # show_nat (nat (- i)) else show_nat (nat i))"

subsection \<open>Property access\<close>

text \<open>
  A property name is a string; a key of another primitive type is converted as
  \<^verbatim>\<open>ToString\<close> does. An object used as a key is converted by its \<^verbatim>\<open>toString\<close>
  method, which the model does not run: a reference is given the name a plain object
  has, and an error the name \<^verbatim>\<open>Error.prototype.toString\<close> builds.
\<close>

definition prop_key :: "jsval \<Rightarrow> string" where
  "prop_key v =
     (case v of
        JUndefined \<Rightarrow> ''undefined''
      | JNull \<Rightarrow> ''null''
      | JBool b \<Rightarrow> (if b then ''true'' else ''false'')
      | JNum n \<Rightarrow> show_int n
      | JStr s \<Rightarrow> s
      | JError m \<Rightarrow> (if m = [] then ''Error'' else ''Error: '' @ m)
      | JTypeError \<Rightarrow> ''TypeError''
      | _ \<Rightarrow> ''[object Object]'')"

fun lookup :: "props \<Rightarrow> string \<Rightarrow> jsval" where
  "lookup [] k = JUndefined"
| "lookup ((k', v) # ps) k = (if k' = k then v else lookup ps k)"

text \<open>A write keeps the place of a property the object has and appends a new one.\<close>

fun store :: "string \<Rightarrow> jsval \<Rightarrow> props \<Rightarrow> props" where
  "store k v [] = [(k, v)]"
| "store k v ((k', v') # ps) = (if k' = k then (k, v) # ps else (k', v') # store k v ps)"

fun remove :: "string \<Rightarrow> props \<Rightarrow> props" where
  "remove k [] = []"
| "remove k ((k', v') # ps) = (if k' = k then remove k ps else (k', v') # remove k ps)"

text \<open>The own properties of a string primitive: \<^verbatim>\<open>length\<close> and its indices.\<close>

definition str_own :: "string \<Rightarrow> string \<Rightarrow> jsval option" where
  "str_own s k =
     (if k = ''length'' then Some (JNum (int (length s)))
      else map_option (\<lambda>i. JStr [s ! i]) (find (\<lambda>i. show_nat i = k) [0..<length s]))"

text \<open>The value of \<^verbatim>\<open>base[k]\<close> for a base other than \<^verbatim>\<open>undefined\<close> and \<^verbatim>\<open>null\<close>.\<close>

definition own_prop :: "heap \<Rightarrow> jsval \<Rightarrow> string \<Rightarrow> jsval" where
  "own_prop h base k =
     (case base of
        JObj a \<Rightarrow> lookup (h a) k
      | JFun a \<Rightarrow> lookup (h a) k
      | JStr s \<Rightarrow> (case str_own s k of None \<Rightarrow> JUndefined | Some v \<Rightarrow> v)
      | JError m \<Rightarrow> (if k = ''message'' then JStr m else JUndefined)
      | _ \<Rightarrow> JUndefined)"

text \<open>
  \<^verbatim>\<open>base[key]\<close>. Reading a property of \<^verbatim>\<open>undefined\<close> or \<^verbatim>\<open>null\<close> throws a
  \<^verbatim>\<open>TypeError\<close>; a property that is not there reads as \<^verbatim>\<open>undefined\<close>.
\<close>

definition get_prop :: "heap \<Rightarrow> jsval \<Rightarrow> jsval \<Rightarrow> jsval completion" where
  "get_prop h base key =
     (if base = JUndefined \<or> base = JNull then Thrown JTypeError
      else Returned (own_prop h base (prop_key key)))"

text \<open>
  \<^verbatim>\<open>base[key] = v\<close>, whose value is \<open>v\<close>. The plugin's files are not in strict mode: a
  write to a primitive is dropped without an error.
\<close>

definition put_prop :: "heap \<Rightarrow> jsval \<Rightarrow> jsval \<Rightarrow> jsval \<Rightarrow> jsval completion \<times> heap" where
  "put_prop h base key v =
     (if base = JUndefined \<or> base = JNull then (Thrown JTypeError, h)
      else case base of
        JObj a \<Rightarrow> (Returned v, h(a := store (prop_key key) v (h a)))
      | JFun a \<Rightarrow> (Returned v, h(a := store (prop_key key) v (h a)))
      | _ \<Rightarrow> (Returned v, h))"

text \<open>
  \<^verbatim>\<open>delete base[key]\<close>. On an object it removes the property and is \<^verbatim>\<open>true\<close>, whether
  the property was there or not; only a property that cannot be removed (the own
  properties of a string) makes it \<^verbatim>\<open>false\<close>.
\<close>

definition delete_prop :: "heap \<Rightarrow> jsval \<Rightarrow> jsval \<Rightarrow> jsval completion \<times> heap" where
  "delete_prop h base key =
     (if base = JUndefined \<or> base = JNull then (Thrown JTypeError, h)
      else case base of
        JObj a \<Rightarrow> (Returned (JBool True), h(a := remove (prop_key key) (h a)))
      | JFun a \<Rightarrow> (Returned (JBool True), h(a := remove (prop_key key) (h a)))
      | JStr s \<Rightarrow> (Returned (JBool (str_own s (prop_key key) = None)), h)
      | _ \<Rightarrow> (Returned (JBool True), h))"

text \<open>The names a \<^verbatim>\<open>for ... in\<close> loop enumerates, and the names \<^verbatim>\<open>_.keys\<close> returns.\<close>

definition enum_keys :: "heap \<Rightarrow> jsval \<Rightarrow> string list" where
  "enum_keys h v =
     (case v of
        JObj a \<Rightarrow> map fst (h a)
      | JFun a \<Rightarrow> map fst (h a)
      | JStr s \<Rightarrow> map show_nat [0..<length s]
      | _ \<Rightarrow> [])"

definition keys :: "heap \<Rightarrow> jsval \<Rightarrow> string list" where
  "keys h v =
     (case v of
        JObj a \<Rightarrow> map fst (h a)
      | JFun a \<Rightarrow> map fst (h a)
      | _ \<Rightarrow> [])"

subsection \<open>The underscore helpers the plugin calls\<close>

text \<open>
  \<^verbatim>\<open>App._\<close> is underscore, which \<^verbatim>\<open>package.json\<close> pins at 1.6.0. Its
  \<^verbatim>\<open>_.extend(obj, source)\<close> copies every enumerable property of a truthy \<open>source\<close>
  into \<open>obj\<close> and returns \<open>obj\<close>:
  \<^verbatim>\<open>for (var prop in source) { obj[prop] = source[prop]; }\<close>
\<close>

fun extend_props :: "heap \<Rightarrow> jsval \<Rightarrow> jsval \<Rightarrow> string list \<Rightarrow> jsval completion \<times> heap" where
  "extend_props h obj source [] = (Returned obj, h)"
| "extend_props h obj source (k # ks) =
     (case get_prop h source (JStr k) of
        Thrown e \<Rightarrow> (Thrown e, h)
      | Returned v \<Rightarrow>
          (case put_prop h obj (JStr k) v of
             (Thrown e, h') \<Rightarrow> (Thrown e, h')
           | (Returned w, h') \<Rightarrow> extend_props h' obj source ks))"

definition extend :: "heap \<Rightarrow> jsval \<Rightarrow> jsval \<Rightarrow> jsval completion \<times> heap" where
  "extend h obj source =
     (if truthy source then extend_props h obj source (enum_keys h source)
      else (Returned obj, h))"

text \<open>
  \<^verbatim>\<open>_.each(obj, iterator)\<close> of underscore 1.6.0 returns at once for \<^verbatim>\<open>undefined\<close> and
  \<^verbatim>\<open>null\<close>; it takes an object whose \<^verbatim>\<open>length\<close> is a number for an array
  (\<^verbatim>\<open>obj.length === +obj.length\<close>) and visits the indices below that length; any other
  object it visits by \<^verbatim>\<open>_.keys(obj)\<close>. The iterator is called with the value, the key
  and the object. (The model has no arrays, so the branch for the native
  \<^verbatim>\<open>forEach\<close> is not there.)
\<close>

fun each_keys ::
  "(jsval \<Rightarrow> jsval \<Rightarrow> jsval \<Rightarrow> heap \<Rightarrow> jsval completion \<times> heap) \<Rightarrow>
     jsval \<Rightarrow> jsval list \<Rightarrow> heap \<Rightarrow> jsval completion \<times> heap" where
  "each_keys iterator obj [] h = (Returned obj, h)"
| "each_keys iterator obj (k # ks) h =
     (case get_prop h obj k of
        Thrown e \<Rightarrow> (Thrown e, h)
      | Returned v \<Rightarrow>
          (case iterator v k obj h of
             (Thrown e, h') \<Rightarrow> (Thrown e, h')
           | (Returned w, h') \<Rightarrow> each_keys iterator obj ks h'))"

definition each ::
  "jsval \<Rightarrow> (jsval \<Rightarrow> jsval \<Rightarrow> jsval \<Rightarrow> heap \<Rightarrow> jsval completion \<times> heap) \<Rightarrow>
     heap \<Rightarrow> jsval completion \<times> heap" where
  "each obj iterator h =
     (if obj = JUndefined \<or> obj = JNull then (Returned obj, h)
      else case own_prop h obj ''length'' of
        JNum n \<Rightarrow> each_keys iterator obj (map (\<lambda>i. JNum (int i)) [0..<nat n]) h
      | _ \<Rightarrow> each_keys iterator obj (map JStr (keys h obj)) h)"

section \<open>The configuration of a client: \<^verbatim>\<open>API.set\<close>, \<^verbatim>\<open>API.get\<close>, \<^verbatim>\<open>API.unset\<close>\<close>

text \<open>
  The three functions dispatch on \<^verbatim>\<open>arguments.length\<close>, so the model takes the list
  of the arguments of the call.
  \<^verbatim>\<open>
  API.set = function (client, key, value) {
    if (arguments.length < 3) {
      return _.extend(client['!config'], key);
    }
    return client['!config'][key] = value;
  };
  \<close>
\<close>

definition API_set :: "heap \<Rightarrow> jsval list \<Rightarrow> jsval completion \<times> heap" where
  "API_set h args =
     (let client = arg args 0; key = arg args 1; value = arg args 2 in
      if length args < 3 then
        (case get_prop h client (JStr ''!config'') of
           Thrown e \<Rightarrow> (Thrown e, h)
         | Returned config \<Rightarrow> extend h config key)
      else
        (case get_prop h client (JStr ''!config'') of
           Thrown e \<Rightarrow> (Thrown e, h)
         | Returned config \<Rightarrow> put_prop h config key value))"


text \<open>
  \<^verbatim>\<open>
  API.unset = function (client, key) {
    if (arguments.length < 2) {
      _.each(client['!config'], function (value, key, obj) {
        delete obj[key];
      });
      return true;
    }
    return delete client['!config'][key];
  };
  \<close>
\<close>

definition API_unset :: "heap \<Rightarrow> jsval list \<Rightarrow> jsval completion \<times> heap" where
  "API_unset h args =
     (let client = arg args 0; key = arg args 1 in
      if length args < 2 then
        (case get_prop h client (JStr ''!config'') of
           Thrown e \<Rightarrow> (Thrown e, h)
         | Returned config \<Rightarrow>
             (case each config (\<lambda>value key obj h'. delete_prop h' obj key) h of
                (Thrown e, h') \<Rightarrow> (Thrown e, h')
              | (Returned w, h') \<Rightarrow> (Returned (JBool True), h')))
      else
        (case get_prop h client (JStr ''!config'') of
           Thrown e \<Rightarrow> (Thrown e, h)
         | Returned config \<Rightarrow> delete_prop h config key))"

text \<open>
  A client: an object or a function whose \<^verbatim>\<open>'!config'\<close> property refers to a plain
  object of its own, the one at address \<open>a\<close>.
\<close>

definition client_config :: "heap \<Rightarrow> jsval \<Rightarrow> addr \<Rightarrow> bool" where
  "client_config h c a =
     (case c of
        JObj ca \<Rightarrow> ca \<noteq> a \<and> lookup (h ca) ''!config'' = JObj a
      | JFun ca \<Rightarrow> ca \<noteq> a \<and> lookup (h ca) ''!config'' = JObj a
      | _ \<Rightarrow> False)"

section \<open>Operations of the sandbox\<close>

text \<open>\<^verbatim>\<open>{}\<close>: a new object without properties.\<close>

definition new_object :: "'w sandbox \<Rightarrow> jsval \<times> 'w sandbox" where
  "new_object s = (JObj (fresh s), s\<lparr>cells := (cells s)(fresh s := []), fresh := Suc (fresh s)\<rparr>)"

text \<open>\<^verbatim>\<open>App._executeContext.async()\<close>: the sandbox issues a new completion handle.\<close>

definition async :: "'w sandbox \<Rightarrow> jsval \<times> 'w sandbox" where
  "async s = (JHandle (issued s), s\<lparr>issued := Suc (issued s)\<rparr>)"

text \<open>
  A call \<^verbatim>\<open>f(args)\<close> of a completion callback. The callback is code of the notebook cell:
  the model records the call and takes it to return. Calling a value that is not a
  function throws a \<^verbatim>\<open>TypeError\<close>.
\<close>

definition invoke :: "jsval \<Rightarrow> jsval list \<Rightarrow> 'w sandbox \<Rightarrow> jsval completion \<times> 'w sandbox" where
  "invoke f args s =
     (if is_function f then (Returned JUndefined, s\<lparr>calls := calls s @ [(f, args)]\<rparr>)
      else (Thrown JTypeError, s))"

text \<open>\<^verbatim>\<open>name.split('.')\<close>\<close>

fun split_dot :: "string \<Rightarrow> string list" where
  "split_dot [] = [[]]"
| "split_dot (c # cs) =
     (if c = CHR ''.'' then [] # split_dot cs
      else (case split_dot cs of [] \<Rightarrow> [[c]] | w # ws \<Rightarrow> (c # w) # ws))"

section \<open>\<^verbatim>\<open>createReader\<close> and \<^verbatim>\<open>API.createClient\<close>\<close>

text \<open>
  \<^verbatim>\<open>
  var createReader = function (config) {
    return new ramlParser.FileReader(function (url) {
      var deferred = this.q.defer();
      App.middleware.trigger('ajax', {
        url: url,
        proxy: config.proxy,
        headers: { 'Accept': 'application/raml+yaml, */*' }
      }, function (err, xhr) {
        if (err) { return deferred.reject(err); }
        if (Math.floor(xhr.status / 100) !== 2) {
          return deferred.reject(
            new Error('Received status code ' + xhr.status + ' loading ' + url)
          );
        }
        return deferred.resolve(xhr.responseText);
      });
      return deferred.promise;
    });
  };
  \<close>
  The reader is the function of the URL; it appends the request to those triggered.
  \<^verbatim>\<open>config.proxy\<close> throws when \<open>config\<close> is \<^verbatim>\<open>undefined\<close> or \<^verbatim>\<open>null\<close>, before a request
  is triggered; the failed read is a failed fetch. (\<^verbatim>\<open>createClient\<close> never hands
  such a \<open>config\<close> over.)
\<close>

definition ajax_request :: "heap \<Rightarrow> jsval \<Rightarrow> string \<Rightarrow> ajax_options" where
  "ajax_request h config u =
     \<lparr>url = u, proxy = own_prop h config ''proxy'',
      headers = [(''Accept'', ''application/raml+yaml, */*'')]\<rparr>"

definition createReader ::
  "(ajax_options \<Rightarrow> (jsval \<times> xhr) option) \<Rightarrow> heap \<Rightarrow> jsval \<Rightarrow> reader" where
  "createReader middleware h config u log =
     (if config = JUndefined \<or> config = JNull then (Rejected JTypeError, log)
      else case middleware (ajax_request h config u) of
        None \<Rightarrow> (Pending, log @ [ajax_request h config u])
      | Some (err, x) \<Rightarrow>
          if truthy err then (Rejected err, log @ [ajax_request h config u])
          else if status x div 100 \<noteq> 2 then
            (Rejected (JError (''Received status code '' @ show_int (status x) @
                               '' loading '' @ u)),
             log @ [ajax_request h config u])
          else (Fulfilled (responseText x), log @ [ajax_request h config u]))"

text \<open>
  Modelled from the spec: \<^verbatim>\<open>ramlParser.loadFile(url, {reader: reader})\<close> of the
  raml-parser package is not among the sources. Section 4.1: the load completes once the
  documents are fetched and merged, every fetch (main document and includes) goes
  through the injected reader, and a failed fetch rejects the load in flight. So the
  load fetches the root document through the reader, fails as that fetch fails, and
  otherwise hands the text to the parser.
\<close>

definition loadFile ::
  "(string \<Rightarrow> string \<Rightarrow> reader \<Rightarrow> ajax_options list \<Rightarrow> 'doc promise \<times> ajax_options list) \<Rightarrow>
     string \<Rightarrow> reader \<Rightarrow> ajax_options list \<Rightarrow> 'doc promise \<times> ajax_options list" where
  "loadFile parser u rd log =
     (case rd u log of
        (Pending, log') \<Rightarrow> (Pending, log')
      | (Rejected e, log') \<Rightarrow> (Rejected e, log')
      | (Fulfilled text, log') \<Rightarrow> parser text u rd log')"

text \<open>
  \<^verbatim>\<open>
  API.createClient = function (name, url, config, done) {
    if (!_.isString(name)) {
      throw new Error('Provide a name for the generated client');
    }
    if (!_.isString(url)) {
      throw new Error('Provide a URL for the ' + name + ' RAML document');
    }
    // Allow the config object to be skipped.
    if (typeof config === 'function') {
      done   = arguments[2];
      config = {};
    }
    App._executeContext.timeout(Infinity);
    done   = done   || App._executeContext.async();
    config = config || {};
    ramlParser.loadFile(url, {
      reader: createReader(config)
    }).then(function (data) {
      var client;
      try {
        client = clientGenerator(data, config);
        fromPath(App._executeWindow, name.split('.'), client);
      } catch (e) {
        return done(e);
      }
      return done(
        null,
        'Create a new code cell and type \'' + name + '.\' ' +
        'to explore this API.'
      );
    }, done);
  };
  \<close>
  The model follows the function in four steps: the validation, the preparation of
  \<open>config\<close> and \<open>done\<close> (with the timeout), the load, and the two handlers of \<^verbatim>\<open>then\<close>.
\<close>

text \<open>The text of a string value (\<open>name\<close> and \<open>url\<close> are strings past the validation).\<close>

definition text_of :: "jsval \<Rightarrow> string" where
  "text_of v = (case v of JStr s \<Rightarrow> s | _ \<Rightarrow> prop_key v)"

text \<open>
  From \<^verbatim>\<open>if (typeof config === 'function')\<close> to \<^verbatim>\<open>config = config || {}\<close>: the
  configuration, the completion callback and the state the load starts in.
\<close>

definition prepare :: "jsval list \<Rightarrow> 'w sandbox \<Rightarrow> jsval \<times> jsval \<times> 'w sandbox" where
  "prepare args s =
     (let (config, done, s1) =
            (if is_function (arg args 2)
             then (let (obj, s') = new_object s in (obj, arg args 2, s'))
             else (arg args 2, arg args 3, s));
          s2 = s1\<lparr>timeout_set := Unbounded\<rparr>;
          (done', s3) = (if truthy done then (done, s2) else async s2);
          (config', s4) = (if truthy config then (config, s3) else new_object s3)
      in (config', done', s4))"

text \<open>The message of the success.\<close>

definition created_message :: "string \<Rightarrow> string" where
  "created_message name =
     ''Create a new code cell and type '' @ [CHR 0x27] @ name @ ''.'' @ [CHR 0x27] @ '' '' @
     ''to explore this API.''"

text \<open>
  The handler of the fulfilled load. What \<open>done\<close> returns, or a \<^verbatim>\<open>TypeError\<close> of calling
  it, stays inside the promise \<^verbatim>\<open>then\<close> returns, which nothing reads.
\<close>

definition loaded ::
  "('doc, 'w) host \<Rightarrow> string \<Rightarrow> jsval \<Rightarrow> jsval \<Rightarrow> 'doc \<Rightarrow> 'w sandbox \<Rightarrow> 'w sandbox" where
  "loaded env name config done data s =
     (case clientGenerator env data config (cells s, fresh s) of
        (Thrown e, (h, n)) \<Rightarrow> snd (invoke done [e] (s\<lparr>cells := h, fresh := n\<rparr>))
      | (Returned client, (h, n)) \<Rightarrow>
          (case fromPath env (window s) (split_dot name) client of
             (Thrown e, w) \<Rightarrow> snd (invoke done [e] (s\<lparr>cells := h, fresh := n, window := w\<rparr>))
           | (Returned r, w) \<Rightarrow>
               snd (invoke done [JNull, JStr (created_message name)]
                      (s\<lparr>cells := h, fresh := n, window := w\<rparr>))))"

text \<open>
  \<^verbatim>\<open>.then(function (data) {...}, done)\<close>: nothing happens while the load is pending; a
  rejection calls \<open>done\<close> with the reason (\<^verbatim>\<open>then\<close> ignores a handler that is not a
  function).
\<close>

definition settle ::
  "('doc, 'w) host \<Rightarrow> string \<Rightarrow> jsval \<Rightarrow> jsval \<Rightarrow> 'doc promise \<Rightarrow> 'w sandbox \<Rightarrow> 'w sandbox" where
  "settle env name config done p s =
     (case p of
        Pending \<Rightarrow> s
      | Rejected e \<Rightarrow> (if is_function done then snd (invoke done [e] s) else s)
      | Fulfilled data \<Rightarrow> loaded env name config done data s)"

text \<open>The load \<^verbatim>\<open>createClient\<close> starts, from the state \<open>prepare\<close> leaves.\<close>

definition load ::
  "('doc, 'w) host \<Rightarrow> string \<Rightarrow> jsval \<Rightarrow> 'w sandbox \<Rightarrow> 'doc promise \<times> ajax_options list" where
  "load env u config s =
     loadFile (parse env) u (createReader (ajax env) (cells s) config) (requests s)"

definition API_createClient ::
  "('doc, 'w) host \<Rightarrow> jsval list \<Rightarrow> 'w sandbox \<Rightarrow> jsval completion \<times> 'w sandbox" where
  "API_createClient env args s =
     (let name = arg args 0; url = arg args 1 in
      if \<not> isString name then
        (Thrown (JError ''Provide a name for the generated client''), s)
      else if \<not> isString url then
        (Thrown (JError (''Provide a URL for the '' @ text_of name @ '' RAML document'')), s)
      else
        (let (config, done, s1) = prepare args s;
             (p, log) = load env (text_of url) config s1
         in (Returned JUndefined,
             settle env (text_of name) config done p (s1\<lparr>requests := log\<rparr>))))"

section \<open>\<^verbatim>\<open>API.authenticate\<close>\<close>

text \<open>
  \<^verbatim>\<open>
  API.authenticate = function (client, method, options, done) {
    App._executeContext.timeout(10 * 60 * 1000);
    done = done || App._executeContext.async();
    var clientOption    = client['!client'];
    var securedBy       = clientOption.securedBy;
    var securitySchemes = clientOption.securitySchemes;
    var cb = function (err, scheme, options, tokens) {
      if (err) {
        return done(err);
      }
      clientOption.authentication[scheme.type] = _.extend(options, tokens);
      return done(null, tokens);
    };
    return authenticate(securedBy, securitySchemes, method, options, cb);
  };
  \<close>
  The callback \<open>cb\<close> closes over \<open>done\<close> and \<open>clientOption\<close>. In the assignment the
  object \<^verbatim>\<open>clientOption.authentication\<close> and the key \<^verbatim>\<open>scheme.type\<close> are read, and the
  object is checked, before the right-hand side runs.
\<close>

definition cb ::
  "jsval \<Rightarrow> jsval \<Rightarrow> jsval \<Rightarrow> jsval \<Rightarrow> jsval \<Rightarrow> jsval \<Rightarrow> 'w sandbox \<Rightarrow>
     jsval completion \<times> 'w sandbox" where
  "cb done clientOption err scheme options tokens s =
     (if truthy err then invoke done [err] s
      else case get_prop (cells s) clientOption (JStr ''authentication'') of
        Thrown e \<Rightarrow> (Thrown e, s)
      | Returned authentication \<Rightarrow>
          (case get_prop (cells s) scheme (JStr ''type'') of
             Thrown e \<Rightarrow> (Thrown e, s)
           | Returned type \<Rightarrow>
               if authentication = JUndefined \<or> authentication = JNull
               then (Thrown JTypeError, s)
               else
                 (case extend (cells s) options tokens of
                    (Thrown e, h) \<Rightarrow> (Thrown e, s\<lparr>cells := h\<rparr>)
                  | (Returned merged, h) \<Rightarrow>
                      (case put_prop h authentication type merged of
                         (Thrown e, h') \<Rightarrow> (Thrown e, s\<lparr>cells := h'\<rparr>)
                       | (Returned w, h') \<Rightarrow> invoke done [JNull, tokens] (s\<lparr>cells := h'\<rparr>)))))"

text \<open>
  \<^verbatim>\<open>require('./authenticate')\<close> is another module of the plugin: the call takes it as
  the parameter \<open>authenticate\<close>, a function of the four values and the callback.
\<close>

type_synonym 'w callback =
  "jsval \<Rightarrow> jsval \<Rightarrow> jsval \<Rightarrow> jsval \<Rightarrow> 'w sandbox \<Rightarrow> jsval completion \<times> 'w sandbox"

definition API_authenticate ::
  "(jsval \<Rightarrow> jsval \<Rightarrow> jsval \<Rightarrow> jsval \<Rightarrow> 'w callback \<Rightarrow> 'w sandbox \<Rightarrow> jsval completion \<times> 'w sandbox) \<Rightarrow>
     jsval list \<Rightarrow> 'w sandbox \<Rightarrow> jsval completion \<times> 'w sandbox" where
  "API_authenticate authenticate args s =
     (let client = arg args 0; method = arg args 1; options = arg args 2;
          s1 = s\<lparr>timeout_set := Millis (10 * 60 * 1000)\<rparr>;
          (done, s2) = (if truthy (arg args 3) then (arg args 3, s1) else async s1)
      in case get_prop (cells s2) client (JStr ''!client'') of
        Thrown e \<Rightarrow> (Thrown e, s2)
      | Returned clientOption \<Rightarrow>
          (case get_prop (cells s2) clientOption (JStr ''securedBy'') of
             Thrown e \<Rightarrow> (Thrown e, s2)
           | Returned securedBy \<Rightarrow>
               (case get_prop (cells s2) clientOption (JStr ''securitySchemes'') of
                  Thrown e \<Rightarrow> (Thrown e, s2)
                | Returned securitySchemes \<Rightarrow>
                    authenticate securedBy securitySchemes method options
                      (cb done clientOption) s2)))"

section \<open>Concrete heaps and sandboxes for the examples\<close>


definition heap1 :: heap where
  "heap1 = (\<lambda>a. [])(1 := [(''!config'', JObj 2)], 2 := [(''length'', JNum 1), (''a'', JNum 1)])"

text \<open>
  A host for the examples. The middleware answers by the URL: the document at
  \<^verbatim>\<open>/api.raml\<close>, a document the generator rejects at \<^verbatim>\<open>/broken.raml\<close>, no answer
  at all for \<^verbatim>\<open>/slow.raml\<close>, and status 404 for anything else. A parsed document is
  its text; the global scope is the list of the installations made, oldest first.
\<close>

definition ajax0 :: "ajax_options \<Rightarrow> (jsval \<times> xhr) option" where
  "ajax0 r =
     (if url r = ''/api.raml'' then Some (JNull, \<lparr>status = 200, responseText = ''#%RAML 0.8''\<rparr>)
      else if url r = ''/broken.raml'' then Some (JNull, \<lparr>status = 200, responseText = ''broken''\<rparr>)
      else if url r = ''/slow.raml'' then None
      else Some (JNull, \<lparr>status = 404, responseText = ''Not Found''\<rparr>))"

definition host0 :: "(string, (string list \<times> jsval) list) host" where
  "host0 =
     \<lparr>ajax = ajax0,
      parse = (\<lambda>text name rd log. (Fulfilled text, log)),
      clientGenerator = (\<lambda>data config (h, n).
         if data = ''broken'' then (Thrown (JError ''malformed schema''), (h, n))
         else (Returned (JFun n), (h(n := [(''!config'', config)]), Suc n))),
      fromPath = (\<lambda>w path client. (Returned client, w @ [(path, client)]))\<rparr>"

definition sandbox0 :: "(string list \<times> jsval) list sandbox" where
  "sandbox0 =
     \<lparr>cells = (\<lambda>a. []), fresh = 10, window = [], timeout_set = Millis 5000, issued = 0,
      calls = [], requests = []\<rparr>"

text \<open>
  A sandbox for \<^verbatim>\<open>authenticate\<close>. The client is the function at address 2; its
  \<^verbatim>\<open>'!client'\<close> object (address 3) has the authentication map at address 4, where a
  bundle for \<^verbatim>\<open>oauth2\<close> (address 5) is stored already. The scheme is at address 8, the
  options at 6 and the tokens at 7. The authenticator \<open>authenticate0\<close> calls back once,
  with these and no error.
\<close>

definition heap2 :: heap where
  "heap2 = (\<lambda>a. [])
     (2 := [(''!client'', JObj 3)],
      3 := [(''securedBy'', JObj 9), (''securitySchemes'', JObj 9), (''authentication'', JObj 4)],
      4 := [(''oauth2'', JObj 5)],
      5 := [(''refreshToken'', JStr ''old'')],
      6 := [(''clientId'', JStr ''id'')],
      7 := [(''accessToken'', JStr ''new'')],
      8 := [(''type'', JStr ''oauth2'')])"

definition sandbox2 :: "(string list \<times> jsval) list sandbox" where
  "sandbox2 = sandbox0\<lparr>cells := heap2\<rparr>"

definition authenticate0 ::
  "jsval \<Rightarrow> jsval \<Rightarrow> jsval \<Rightarrow> jsval \<Rightarrow> (string list \<times> jsval) list callback \<Rightarrow>
     (string list \<times> jsval) list sandbox \<Rightarrow> jsval completion \<times> (string list \<times> jsval) list sandbox" where
  "authenticate0 securedBy securitySchemes method options k s =
     k JNull (JObj 8) (JObj 6) (JObj 7) s"

section \<open>Properties of the configuration operations\<close>

subsection \<open>Property lists\<close>

lemma lookup_store: "lookup (store k v ps) k' = (if k' = k then v else lookup ps k')"
  by (induction ps) auto




subsection \<open>The single-key forms on a client\<close>

lemma client_config_read:
  "client_config h c a \<Longrightarrow> get_prop h c (JStr ''!config'') = Returned (JObj a)"
  by (auto simp: client_config_def get_prop_def own_prop_def prop_key_def split: jsval.splits)














subsection \<open>The forms without a key\<close>

lemma store_same: "k \<in> fst ` set ps \<Longrightarrow> store k (lookup ps k) ps = ps"
  by (induction ps) (auto simp: rev_image_eqI)

lemma lookup_fold_store:
  "lookup (fold (\<lambda>k. store k (f k)) ks ps) k' = (if k' \<in> set ks then f k' else lookup ps k')"
  by (induction ks arbitrary: ps) (auto simp: lookup_store)

lemma extend_props_other:
  assumes "a \<noteq> b"
  shows "extend_props h (JObj a) (JObj b) ks =
           (Returned (JObj a), h(a := fold (\<lambda>k. store k (lookup (h b) k)) ks (h a)))"
  using assms
proof (induction ks arbitrary: h)
  case Nil
  then show ?case by simp
next
  case (Cons k ks)
  let ?h' = "h(a := store k (lookup (h b) k) (h a))"
  have "extend_props h (JObj a) (JObj b) (k # ks) = extend_props ?h' (JObj a) (JObj b) ks"
    by (simp add: get_prop_def own_prop_def prop_key_def put_prop_def)
  also have "\<dots> = (Returned (JObj a), ?h'(a := fold (\<lambda>k. store k (lookup (?h' b) k)) ks (?h' a)))"
    using Cons.prems by (rule Cons.IH)
  also have "?h' b = h b"
    using Cons.prems by simp
  also have "?h' a = store k (lookup (h b) k) (h a)"
    by simp
  also have "?h'(a := fold (\<lambda>k. store k (lookup (h b) k)) ks (store k (lookup (h b) k) (h a))) =
             h(a := fold (\<lambda>k. store k (lookup (h b) k)) (k # ks) (h a))"
    by simp
  finally show ?case .
qed

lemma extend_props_self:
  assumes "set ks \<subseteq> fst ` set (h a)"
  shows "extend_props h (JObj a) (JObj a) ks = (Returned (JObj a), h)"
  using assms
proof (induction ks)
  case Nil
  then show ?case by simp
next
  case (Cons k ks)
  then have "store k (lookup (h a) k) (h a) = h a"
    by (simp add: store_same)
  then show ?case
    using Cons by (simp add: get_prop_def own_prop_def prop_key_def put_prop_def)
qed

lemma extend_objects:
  "\<exists>h'. extend h (JObj a) (JObj b) = (Returned (JObj a), h') \<and>
        (\<forall>x. x \<noteq> a \<longrightarrow> h' x = h x) \<and>
        (\<forall>k. lookup (h' a) k =
              (if k \<in> fst ` set (h b) then lookup (h b) k else lookup (h a) k))"
proof (cases "a = b")
  case True
  then have "extend h (JObj a) (JObj b) = (Returned (JObj a), h)"
    by (simp add: extend_def truthy_def enum_keys_def extend_props_self)
  with True show ?thesis by simp
next
  case False
  then show ?thesis
    by (simp add: extend_def truthy_def enum_keys_def extend_props_other lookup_fold_store)
qed

lemma bulk_set_merges:
  assumes "client_config h c a"
  shows "\<exists>h'. API_set h [c, JObj b] = (Returned (JObj a), h') \<and>
          (\<forall>x. x \<noteq> a \<longrightarrow> h' x = h x) \<and>
          (\<forall>k. lookup (h' a) k =
                (if k \<in> fst ` set (h b) then lookup (h b) k else lookup (h a) k))"
  using client_config_read [OF assms] extend_objects [of h a b]
  by (simp add: API_set_def arg_def)

lemma remove_filter: "remove k ps = filter (\<lambda>p. fst p \<noteq> k) ps"
  by (induction ps) auto

lemma keys_remove: "fst ` set (remove k ps) = fst ` set ps - {k}"
  by (auto simp: remove_filter)

lemma fold_remove_all: "fst ` set ps \<subseteq> set ks \<Longrightarrow> fold remove ks ps = []"
proof (induction ks arbitrary: ps)
  case Nil
  then show ?case by simp
next
  case (Cons k ks)
  have "fst ` set (remove k ps) \<subseteq> set ks"
    using Cons.prems by (auto simp: keys_remove)
  then show ?case
    using Cons.IH by simp
qed

lemma delete_prop_object:
  "delete_prop h (JObj a) (JStr k) = (Returned (JBool True), h(a := remove k (h a)))"
  by (simp add: delete_prop_def prop_key_def)

lemma each_keys_delete:
  "each_keys (\<lambda>value key obj h'. delete_prop h' obj key) (JObj a) (map JStr ks) h =
     (Returned (JObj a), h(a := fold remove ks (h a)))"
proof (induction ks arbitrary: h)
  case Nil
  then show ?case by simp
next
  case (Cons k ks)
  let ?it = "\<lambda>value key obj h'. delete_prop h' obj key"
  let ?h' = "h(a := remove k (h a))"
  have "each_keys ?it (JObj a) (map JStr (k # ks)) h = each_keys ?it (JObj a) (map JStr ks) ?h'"
    by (simp add: get_prop_def delete_prop_object)
  also have "\<dots> = (Returned (JObj a), ?h'(a := fold remove ks (?h' a)))"
    by (rule Cons.IH)
  also have "?h'(a := fold remove ks (?h' a)) = h(a := fold remove (k # ks) (h a))"
    by simp
  finally show ?case .
qed

lemma bulk_unset_clears:
  assumes "client_config h c a" and "\<forall>n. lookup (h a) ''length'' \<noteq> JNum n"
  shows "API_unset h [c] = (Returned (JBool True), h(a := []))"
proof -
  let ?it = "\<lambda>value key obj h'. delete_prop h' obj key"
  have "each (JObj a) ?it h = each_keys ?it (JObj a) (map JStr (map fst (h a))) h"
    using assms(2)
    by (cases "lookup (h a) ''length''") (simp_all add: each_def own_prop_def keys_def)
  then have "each (JObj a) ?it h = (Returned (JObj a), h(a := fold remove (map fst (h a)) (h a)))"
    by (simp only: each_keys_delete)
  moreover have "fold remove (map fst (h a)) (h a) = []"
    by (simp add: fold_remove_all)
  ultimately have "each (JObj a) ?it h = (Returned (JObj a), h(a := []))"
    by simp
  then show ?thesis
    using client_config_read [OF assms(1)]
    by (simp add: API_unset_def arg_def)
qed

text \<open>
  Claim C4, at an input where the code departs from it. The configuration of the client
  of \<open>heap1\<close> is \<^verbatim>\<open>{length: 1, a: 1}\<close>. \<^verbatim>\<open>_.each\<close> takes an object with a numeric
  \<^verbatim>\<open>length\<close> for an array, so \<^verbatim>\<open>unset(c)\<close> deletes the property \<^verbatim>\<open>0\<close>, which is not
  there, returns \<^verbatim>\<open>true\<close>, and leaves both keys in the configuration. (The lemmas
  \<open>bulk_set_merges\<close>, \<open>bulk_unset_clears\<close> and \<open>API_get_all\<close> above are the parts of the
  claim that hold: the merge, the clearing of a configuration without a numeric
  \<^verbatim>\<open>length\<close>, and the reference \<^verbatim>\<open>get(c)\<close> returns.)
\<close>

theorem unset_all_keeps_config_with_length:
  "client_config heap1 (JFun 1) 2 \<and>
   fst (API_unset heap1 [JFun 1]) = Returned (JBool True) \<and>
   snd (API_unset heap1 [JFun 1]) 2 = [(''length'', JNum 1), (''a'', JNum 1)]"
  by (simp add: client_config_def heap1_def API_unset_def arg_def get_prop_def own_prop_def
      prop_key_def each_def delete_prop_def show_int_def digit_char_def)

section \<open>Properties of \<^verbatim>\<open>createClient\<close> and \<^verbatim>\<open>authenticate\<close>\<close>

lemma prepare_facts:
  assumes "prepare args s = (config, done, s1)"
  shows "window s1 = window s" and "calls s1 = calls s" and "requests s1 = requests s"
    and "timeout_set s1 = Unbounded"
    and "config \<noteq> JUndefined" and "config \<noteq> JNull"
    and "done = (if truthy (if is_function (arg args 2) then arg args 2 else arg args 3)
                 then (if is_function (arg args 2) then arg args 2 else arg args 3)
                 else JHandle (issued s))"
    and "issued s1 = (if truthy (if is_function (arg args 2) then arg args 2 else arg args 3)
                      then issued s else Suc (issued s))"
  using assms
  by (auto simp: prepare_def new_object_def async_def Let_def truthy_def
      split: if_splits prod.splits)

lemma createClient_valid:
  assumes "isString (arg args 0)" and "isString (arg args 1)"
    and "prepare args s = (config, done, s1)"
    and "load env (text_of (arg args 1)) config s1 = (p, log)"
  shows "API_createClient env args s =
           (Returned JUndefined,
            settle env (text_of (arg args 0)) config done p (s1\<lparr>requests := log\<rparr>))"
  using assms by (simp add: API_createClient_def)


lemma invoke_function:
  "is_function f \<Longrightarrow> invoke f args s = (Returned JUndefined, s\<lparr>calls := calls s @ [(f, args)]\<rparr>)"
  by (simp add: invoke_def)

lemma createReader_status:
  assumes "config \<noteq> JUndefined" and "config \<noteq> JNull"
    and "middleware (ajax_request h config u) = Some (err, x)"
    and "\<not> truthy err" and "status x div 100 \<noteq> 2"
  shows "createReader middleware h config u log =
           (Rejected (JError (''Received status code '' @ show_int (status x) @ '' loading '' @ u)),
            log @ [ajax_request h config u])"
  using assms by (simp add: createReader_def)

text \<open>
  Claim C1, as the code has it. A call of \<^verbatim>\<open>createClient\<close> whose \<open>url\<close> is not a string
  throws an \<^verbatim>\<open>Error\<close> to its caller: the one that asks for the URL of the named client,
  or the one that asks for a name when \<open>name\<close> is not a string either. The sandbox is
  left as it was: the completion callback is not invoked, no handle is obtained, no
  request is triggered.
\<close>

theorem createClient_rejects_url:
  assumes "\<not> isString (arg args 1)"
  shows "API_createClient env args s =
           (Thrown (JError (if isString (arg args 0)
                            then ''Provide a URL for the '' @ text_of (arg args 0) @
                                 '' RAML document''
                            else ''Provide a name for the generated client'')), s)"
  using assms by (simp add: API_createClient_def)

theorem createClient_rejects_url_witness:
  "\<not> isString (arg [JStr ''x'', JNum 123, JFun 1] 1) \<and>
   API_createClient host0 [JStr ''x'', JNum 123, JFun 1] sandbox0 =
     (Thrown (JError ''Provide a URL for the x RAML document''), sandbox0)"
proof -
  have u: "\<not> isString (arg [JStr ''x'', JNum 123, JFun 1] 1)"
    by (simp add: arg_def isString_def)
  show ?thesis
    using u createClient_rejects_url [OF u, of host0 sandbox0]
    by (simp add: arg_def isString_def text_of_def)
qed

text \<open>
  Claim C1 as stated fails: \<^verbatim>\<open>createClient('x', 123, done)\<close> throws, and \<open>done\<close> is not
  invoked.
\<close>

theorem createClient_bad_url_skips_done:
  "fst (API_createClient host0 [JStr ''x'', JNum 123, JFun 1] sandbox0) =
     Thrown (JError ''Provide a URL for the x RAML document'') \<and>
   calls (snd (API_createClient host0 [JStr ''x'', JNum 123, JFun 1] sandbox0)) = []"
  by (simp add: API_createClient_def arg_def isString_def text_of_def sandbox0_def)

text \<open>
  Claim C3. A call of \<^verbatim>\<open>createClient\<close> with strings for \<open>name\<close> and \<open>url\<close>, where the
  middleware answers the fetch of the description without an error and with a status
  outside 2xx: the reader, and with it the load, is rejected with the error whose message is
  \<^verbatim>\<open>'Received status code ' + status + ' loading ' + url\<close>, the completion callback (a
  function) is invoked once with that error as its only argument, and the global scope of
  the sandbox is what it was.
\<close>

theorem load_status_rejected:
  assumes "isString (arg args 0)" and "arg args 1 = JStr u"
    and "prepare args s = (config, done, s1)"
    and "ajax env (ajax_request (cells s1) config u) = Some (err, x)"
    and "\<not> truthy err" and "status x div 100 \<noteq> 2"
    and "is_function done"
  shows "fst (createReader (ajax env) (cells s1) config u (requests s1)) =
           Rejected (JError (''Received status code '' @ show_int (status x) @ '' loading '' @ u)) \<and>
         fst (load env u config s1) =
           Rejected (JError (''Received status code '' @ show_int (status x) @ '' loading '' @ u)) \<and>
         fst (API_createClient env args s) = Returned JUndefined \<and>
         calls (snd (API_createClient env args s)) =
           calls s @ [(done, [JError (''Received status code '' @ show_int (status x) @
                                       '' loading '' @ u)])] \<and>
         window (snd (API_createClient env args s)) = window s"
proof -
  let ?e = "JError (''Received status code '' @ show_int (status x) @ '' loading '' @ u)"
  let ?log = "requests s1 @ [ajax_request (cells s1) config u]"
  note p = prepare_facts [OF assms(3)]
  have rd: "createReader (ajax env) (cells s1) config u (requests s1) = (Rejected ?e, ?log)"
    using p(5) p(6) assms(4) assms(5) assms(6) by (rule createReader_status)
  then have l: "load env u config s1 = (Rejected ?e, ?log)"
    by (simp add: load_def loadFile_def)
  have "API_createClient env args s =
          (Returned JUndefined, settle env (text_of (arg args 0)) config done (Rejected ?e)
             (s1\<lparr>requests := ?log\<rparr>))"
    using assms(1) assms(2) assms(3) l
    by (intro createClient_valid) (simp_all add: isString_def text_of_def)
  then have "API_createClient env args s =
          (Returned JUndefined, s1\<lparr>requests := ?log, calls := calls s1 @ [(done, [?e])]\<rparr>)"
    using assms(7) by (simp add: settle_def invoke_function)
  then show ?thesis
    using rd l p(1) p(2) by simp
qed

theorem load_status_rejected_witness:
  "isString (arg [JStr ''x'', JStr ''/nothere.raml'', JFun 1] 0) \<and>
   arg [JStr ''x'', JStr ''/nothere.raml'', JFun 1] 1 = JStr ''/nothere.raml'' \<and>
   prepare [JStr ''x'', JStr ''/nothere.raml'', JFun 1] sandbox0 =
     (JObj 10, JFun 1,
      sandbox0\<lparr>cells := (cells sandbox0)(10 := []), fresh := 11, timeout_set := Unbounded\<rparr>) \<and>
   ajax host0 (ajax_request ((cells sandbox0)(10 := [])) (JObj 10) ''/nothere.raml'') =
     Some (JNull, \<lparr>status = 404, responseText = ''Not Found''\<rparr>) \<and>
   \<not> truthy JNull \<and> (404 :: int) div 100 \<noteq> 2 \<and> is_function (JFun 1) \<and>
   calls (snd (API_createClient host0 [JStr ''x'', JStr ''/nothere.raml'', JFun 1] sandbox0)) =
     [(JFun 1, [JError ''Received status code 404 loading /nothere.raml''])] \<and>
   window (snd (API_createClient host0 [JStr ''x'', JStr ''/nothere.raml'', JFun 1] sandbox0)) = []"
proof -
  let ?args = "[JStr ''x'', JStr ''/nothere.raml'', JFun 1]"
  let ?s1 = "sandbox0\<lparr>cells := (cells sandbox0)(10 := []), fresh := 11, timeout_set := Unbounded\<rparr>"
  have a: "isString (arg ?args 0)" and b: "arg ?args 1 = JStr ''/nothere.raml''"
    by (simp_all add: arg_def isString_def)
  have c: "prepare ?args sandbox0 = (JObj 10, JFun 1, ?s1)"
    by (simp add: prepare_def arg_def is_function_def new_object_def truthy_def sandbox0_def)
  have d: "ajax host0 (ajax_request (cells ?s1) (JObj 10) ''/nothere.raml'') =
             Some (JNull, \<lparr>status = 404, responseText = ''Not Found''\<rparr>)"
    by (simp add: host0_def ajax0_def ajax_request_def)
  have e: "\<not> truthy JNull" and g: "is_function (JFun 1)"
    by (simp_all add: truthy_def is_function_def)
  have f: "status \<lparr>status = 404, responseText = ''Not Found''\<rparr> div 100 \<noteq> 2"
    by simp
  have "show_int 404 = ''404''"
    by (simp add: show_int_def digit_char_def)
  then show ?thesis
    using a b c d e g load_status_rejected [OF a b c d e f g]
    by (simp add: sandbox0_def)
qed

text \<open>
  Claim C5. A call of \<^verbatim>\<open>createClient\<close> whose load is fulfilled and whose client
  generator throws \<open>e\<close>: the completion callback is invoked once with \<open>e\<close> as its only
  argument, and the global scope of the sandbox is what it was (\<^verbatim>\<open>fromPath\<close> is not
  called).
\<close>

theorem generation_error_reported:
  assumes "isString (arg args 0)" and "isString (arg args 1)"
    and "prepare args s = (config, done, s1)"
    and "load env (text_of (arg args 1)) config s1 = (Fulfilled data, log)"
    and "clientGenerator env data config (cells s1, fresh s1) = (Thrown e, st)"
    and "is_function done"
  shows "fst (API_createClient env args s) = Returned JUndefined \<and>
         calls (snd (API_createClient env args s)) = calls s @ [(done, [e])] \<and>
         window (snd (API_createClient env args s)) = window s"
proof -
  note p = prepare_facts [OF assms(3)]
  have "API_createClient env args s =
          (Returned JUndefined, settle env (text_of (arg args 0)) config done (Fulfilled data)
             (s1\<lparr>requests := log\<rparr>))"
    using assms(1) assms(2) assms(3) assms(4) by (rule createClient_valid)
  moreover have "settle env (text_of (arg args 0)) config done (Fulfilled data)
                   (s1\<lparr>requests := log\<rparr>) =
                 s1\<lparr>requests := log, cells := fst st, fresh := snd st,
                    calls := calls s1 @ [(done, [e])]\<rparr>"
    using assms(5) assms(6)
    by (cases st) (simp add: settle_def loaded_def invoke_function)
  ultimately show ?thesis
    using p(1) p(2) by simp
qed

theorem generation_error_reported_witness:
  "isString (arg [JStr ''x'', JStr ''/broken.raml'', JFun 1] 0) \<and>
   isString (arg [JStr ''x'', JStr ''/broken.raml'', JFun 1] 1) \<and>
   fst (load host0 ''/broken.raml'' (JObj 10)
          (sandbox0\<lparr>cells := (cells sandbox0)(10 := []), fresh := 11, timeout_set := Unbounded\<rparr>)) =
     Fulfilled ''broken'' \<and>
   fst (clientGenerator host0 ''broken'' (JObj 10) ((cells sandbox0)(10 := []), 11)) =
     Thrown (JError ''malformed schema'') \<and>
   is_function (JFun 1) \<and>
   calls (snd (API_createClient host0 [JStr ''x'', JStr ''/broken.raml'', JFun 1] sandbox0)) =
     [(JFun 1, [JError ''malformed schema''])] \<and>
   window (snd (API_createClient host0 [JStr ''x'', JStr ''/broken.raml'', JFun 1] sandbox0)) = []"
proof -
  let ?args = "[JStr ''x'', JStr ''/broken.raml'', JFun 1]"
  let ?s1 = "sandbox0\<lparr>cells := (cells sandbox0)(10 := []), fresh := 11, timeout_set := Unbounded\<rparr>"
  let ?rq = "ajax_request (cells ?s1) (JObj 10) ''/broken.raml''"
  have a: "isString (arg ?args 0)" and b: "isString (arg ?args 1)"
    by (simp_all add: arg_def isString_def)
  have c: "prepare ?args sandbox0 = (JObj 10, JFun 1, ?s1)"
    by (simp add: prepare_def arg_def is_function_def new_object_def truthy_def sandbox0_def)
  have d0: "load host0 ''/broken.raml'' (JObj 10) ?s1 = (Fulfilled ''broken'', [?rq])"
    by (simp add: load_def loadFile_def createReader_def host0_def ajax0_def ajax_request_def
        truthy_def sandbox0_def)
  have d: "load host0 (text_of (arg ?args 1)) (JObj 10) ?s1 = (Fulfilled ''broken'', [?rq])"
    using d0 by (simp add: arg_def text_of_def)
  have e: "clientGenerator host0 ''broken'' (JObj 10) (cells ?s1, fresh ?s1) =
             (Thrown (JError ''malformed schema''), (cells ?s1, fresh ?s1))"
    by (simp add: host0_def)
  have g: "is_function (JFun 1)"
    by (simp add: is_function_def)
  show ?thesis
    using a b d0 e g generation_error_reported [OF a b c d e g]
    by (simp add: sandbox0_def)
qed


lemma settle_frame:
  "timeout_set (settle env name config done p s) = timeout_set s"
  "issued (settle env name config done p s) = issued s"
  "requests (settle env name config done p s) = requests s"
  by (auto simp: settle_def loaded_def invoke_def split: promise.splits prod.splits completion.splits)





lemma authenticate_throws:
  assumes "get_prop (cells s) (arg args 0) (JStr ''!client'') = Thrown e"
  shows "API_authenticate authenticate args s =
           (Thrown e, s\<lparr>timeout_set := Millis (10 * 60 * 1000),
                         issued := (if truthy (arg args 3) then issued s else Suc (issued s))\<rparr>)"
  using assms by (simp add: API_authenticate_def async_def Let_def)







lemma createClient_issued:
  assumes "isString (arg args 0)" and "isString (arg args 1)"
    and "prepare args s = (config, done, s1)"
  shows "issued (snd (API_createClient env args s)) = issued s1"
    and "timeout_set (snd (API_createClient env args s)) = Unbounded"
proof -
  obtain p log where l: "load env (text_of (arg args 1)) config s1 = (p, log)"
    by (cases "load env (text_of (arg args 1)) config s1")
  have r: "API_createClient env args s =
          (Returned JUndefined,
           settle env (text_of (arg args 0)) config done p (s1\<lparr>requests := log\<rparr>))"
    using assms l by (rule createClient_valid)
  show "issued (snd (API_createClient env args s)) = issued s1"
    by (simp add: r settle_frame)
  show "timeout_set (snd (API_createClient env args s)) = Unbounded"
    using prepare_facts(4) [OF assms(3)] by (simp add: r settle_frame)
qed


lemma cb_timeout: "timeout_set (snd (cb d co e sc op tk v)) = timeout_set v"
  by (auto simp: cb_def invoke_def split: completion.splits prod.splits)

lemma authenticate_timeout:
  assumes "\<And>a b c d k u. (\<And>e sc op tk v. timeout_set (snd (k e sc op tk v)) = timeout_set v) \<Longrightarrow>
             timeout_set (snd (authenticate a b c d k u)) = timeout_set u"
  shows "timeout_set (snd (API_authenticate authenticate args s)) = Millis (10 * 60 * 1000)"
  by (auto simp: API_authenticate_def async_def Let_def assms cb_timeout split: completion.splits)



text \<open>
  Claim C9, as the code has it. \<^verbatim>\<open>createClient\<close> sets the timeout of the sandbox to
  \<^verbatim>\<open>Infinity\<close> on every call whose \<open>name\<close> and \<open>url\<close> are strings. \<^verbatim>\<open>authenticate\<close> sets it
  to \<^verbatim>\<open>10 * 60 * 1000\<close> milliseconds, ten minutes, on every call (the authenticator, which
  runs afterwards, is taken not to set the timeout itself).
\<close>

theorem timeouts_set:
  "(isString (arg args 0) \<and> isString (arg args 1) \<longrightarrow>
      timeout_set (snd (API_createClient env args s)) = Unbounded) \<and>
   ((\<forall>a b c d k u.
       (\<forall>e sc op tk v. timeout_set (snd (k e sc op tk v)) = timeout_set v) \<longrightarrow>
       timeout_set (snd (authenticate a b c d k u)) = timeout_set u) \<longrightarrow>
      timeout_set (snd (API_authenticate authenticate args' t)) = Millis (10 * 60 * 1000))"
proof (intro conjI impI)
  assume a: "isString (arg args 0) \<and> isString (arg args 1)"
  obtain config handle s1 where pr: "prepare args s = (config, handle, s1)"
    by (cases "prepare args s")
  show "timeout_set (snd (API_createClient env args s)) = Unbounded"
    using a pr by (intro createClient_issued(2)) simp_all
next
  assume "\<forall>a b c d k u.
       (\<forall>e sc op tk v. timeout_set (snd (k e sc op tk v)) = timeout_set v) \<longrightarrow>
       timeout_set (snd (authenticate a b c d k u)) = timeout_set u"
  then show "timeout_set (snd (API_authenticate authenticate args' t)) = Millis (10 * 60 * 1000)"
    by (intro authenticate_timeout) simp
qed

theorem timeouts_set_witness:
  "isString (arg [JStr ''x.y'', JStr ''/api.raml''] 0) \<and>
   isString (arg [JStr ''x.y'', JStr ''/api.raml''] 1) \<and>
   timeout_set sandbox0 = Millis 5000 \<and>
   timeout_set (snd (API_createClient host0 [JStr ''x.y'', JStr ''/api.raml''] sandbox0)) = Unbounded \<and>
   timeout_set sandbox2 = Millis 5000 \<and>
   timeout_set (snd (API_authenticate authenticate0 [JFun 2] sandbox2)) = Millis 600000"
proof -
  let ?args = "[JStr ''x.y'', JStr ''/api.raml'']"
  have n: "isString (arg ?args 0)" and u: "isString (arg ?args 1)"
    by (simp_all add: arg_def isString_def)
  have frame: "\<forall>a b c d k u.
       (\<forall>e sc op tk v. timeout_set (snd (k e sc op tk v)) = timeout_set v) \<longrightarrow>
       timeout_set (snd (authenticate0 a b c d k u)) = timeout_set u"
    by (simp add: authenticate0_def)
  have before: "timeout_set sandbox0 = Millis 5000" "timeout_set sandbox2 = Millis 5000"
    by (simp_all add: sandbox2_def sandbox0_def)
  show ?thesis
    using n u frame before
      timeouts_set [of ?args host0 sandbox0 authenticate0 "[JFun 2]" sandbox2]
    by simp
qed

text \<open>
  Claim C9 as stated fails: \<^verbatim>\<open>createClient('x', 123, done)\<close> throws before the timeout is
  set, which stays at the five seconds of \<open>sandbox0\<close>.
\<close>

theorem createClient_bad_url_keeps_timeout:
  "timeout_set sandbox0 = Millis 5000 \<and>
   timeout_set (snd (API_createClient host0 [JStr ''x'', JNum 123, JFun 1] sandbox0)) = Millis 5000"
  by code_simp

end
